theory Spec2Isabelle
  imports Main "HOL-Library.Char_ord" "HOL-Library.List_Lexorder" "HOL-Library.AList"
begin

section \<open>Values and strings\<close>

text \<open>
  A JavaScript string is modelled as a \<^typ>\<open>string\<close>, each \<^typ>\<open>char\<close> standing for one
  code unit below 256. The order on \<^typ>\<open>char\<close> is the order of the code units and the order
  on lists is the lexicographic one, which is how \<^verbatim>\<open>Array.prototype.sort()\<close> without a
  comparator orders strings.

  A JavaScript number is a double. The model leaves the type \<open>'n\<close> of numbers open and
  takes as parameters the two things the code does with a number: \<^verbatim>\<open>String(n)\<close>, and
  testing \<open>n\<close> for truth. So nothing is assumed about how a number prints
  (\<^verbatim>\<open>String(1e21)\<close> is \<^verbatim>\<open>"1e+21"\<close>, \<^verbatim>\<open>String(0.5)\<close> is \<^verbatim>\<open>"0.5"\<close>), and every theorem
  holds for the numbers of the language with their own printing.
\<close>

record 'n numbers =
  Number_toString :: "'n \<Rightarrow> string"
  Number_falsy :: "'n \<Rightarrow> bool"

text \<open>The scalars of \<^verbatim>\<open>types.ts\<close>: \<^verbatim>\<open>string | number | boolean | null\<close>.\<close>

datatype 'n scalar = SNull | SBool bool | SNum 'n | SStr string

text \<open>The nested tree a parser returns: a scalar, an array, or an object whose entries
  are listed in the order \<^verbatim>\<open>Object.entries\<close> enumerates them.\<close>

datatype 'n ConfigNode =
    Scalar "'n scalar"
  | Sequence "'n ConfigNode list"
  | Mapping "(string \<times> 'n ConfigNode) list"

text \<open>\<^verbatim>\<open>FlatConfig = Record<string, string | number | boolean | null>\<close>: the own
  properties of the object, in the order they were created.\<close>

type_synonym 'n FlatConfig = "(string \<times> 'n scalar) list"

text \<open>\<^verbatim>\<open>String(v)\<close> for the value of a property read; \<open>None\<close> is \<^verbatim>\<open>undefined\<close>,
  what reading an absent property yields.\<close>

fun String_of :: "'n numbers \<Rightarrow> 'n scalar option \<Rightarrow> string" where
  "String_of N None = ''undefined''"
| "String_of N (Some SNull) = ''null''"
| "String_of N (Some (SBool b)) = (if b then ''true'' else ''false'')"
| "String_of N (Some (SNum n)) = Number_toString N n"
| "String_of N (Some (SStr s)) = s"

text \<open>Decimal digits of a natural number, most significant first: how an array index
  prints in a template literal.\<close>

fun digits :: "nat \<Rightarrow> string" where
  "digits n =
     (if n < 10 then [''0123456789'' ! n]
      else digits (n div 10) @ [''0123456789'' ! (n mod 10)])"

declare digits.simps [simp del]

section \<open>String operations of the host language\<close>

text \<open>White space as \<^verbatim>\<open>String.prototype.trim\<close> and the regular-expression class
  \<^verbatim>\<open>\s\<close> see it, among the code units below 256: tab, line feed, vertical tab, form
  feed, carriage return, space and no-break space.\<close>

definition is_space :: "char \<Rightarrow> bool" where
  "is_space c \<longleftrightarrow>
     c \<in> {CHR 0x09, CHR 0x0A, CHR 0x0B, CHR 0x0C, CHR 0x0D, CHR 0x20, CHR 0xA0}"

text \<open>The line terminators at which \<^verbatim>\<open>^\<close> and \<^verbatim>\<open>$\<close> match under the \<^verbatim>\<open>m\<close> flag.\<close>

definition is_line_terminator :: "char \<Rightarrow> bool" where
  "is_line_terminator c \<longleftrightarrow> c = CHR 0x0A \<or> c = CHR 0x0D"

definition letter_or_underscore :: "char \<Rightarrow> bool" where
  "letter_or_underscore c \<longleftrightarrow>
     (CHR ''a'' \<le> c \<and> c \<le> CHR ''z'') \<or> (CHR ''A'' \<le> c \<and> c \<le> CHR ''Z'') \<or> c = CHR ''_''"

definition digit :: "char \<Rightarrow> bool" where
  "digit c \<longleftrightarrow> CHR ''0'' \<le> c \<and> c \<le> CHR ''9''"

definition trim :: "string \<Rightarrow> string" where
  "trim s = rev (dropWhile is_space (rev (dropWhile is_space s)))"

definition startsWith :: "string \<Rightarrow> string \<Rightarrow> bool" where
  "startsWith s p \<longleftrightarrow> take (length p) s = p"

fun str_includes :: "string \<Rightarrow> string \<Rightarrow> bool" where
  "str_includes [] p = startsWith [] p"
| "str_includes (c # cs) p = (startsWith (c # cs) p \<or> str_includes cs p)"

text \<open>\<^verbatim>\<open>toLowerCase\<close> on the code units below 256: the upper-case letters are
  \<^verbatim>\<open>A\<close> to \<^verbatim>\<open>Z\<close> and \<^verbatim>\<open>0xC0\<close> to \<^verbatim>\<open>0xDE\<close> without \<^verbatim>\<open>0xD7\<close>; the lower-case
  letter is 32 higher, which for these code units is bit 5 set.\<close>

definition lower_char :: "char \<Rightarrow> char" where
  "lower_char c =
     (if (CHR ''A'' \<le> c \<and> c \<le> CHR ''Z'') \<or> (CHR 0xC0 \<le> c \<and> c \<le> CHR 0xDE \<and> c \<noteq> CHR 0xD7)
      then (case c of Char b0 b1 b2 b3 b4 b5 b6 b7 \<Rightarrow> Char b0 b1 b2 b3 b4 True b6 b7)
      else c)"

definition toLowerCase :: "string \<Rightarrow> string" where
  "toLowerCase s = map lower_char s"

text \<open>\<^verbatim>\<open>s.split(c)\<close> for a one-character separator: never the empty array.\<close>

fun split_on :: "char \<Rightarrow> string \<Rightarrow> string list" where
  "split_on c [] = [[]]"
| "split_on c (x # xs) =
     (if x = c then [] # split_on c xs
      else (case split_on c xs of [] \<Rightarrow> [[x]] | p # ps \<Rightarrow> (x # p) # ps))"

text \<open>\<^verbatim>\<open>parts.join(sep)\<close>.\<close>

fun join :: "string \<Rightarrow> string list \<Rightarrow> string" where
  "join sep [] = []"
| "join sep [p] = p"
| "join sep (p # q # ps) = p @ sep @ join sep (q # ps)"

text \<open>\<^verbatim>\<open>xs.pop()\<close> as a value: \<open>None\<close> is \<^verbatim>\<open>undefined\<close>, for the empty array.\<close>

definition pop :: "'a list \<Rightarrow> 'a option" where
  "pop xs = (case xs of [] \<Rightarrow> None | _ \<Rightarrow> Some (last xs))"

section \<open>Objects used as dictionaries\<close>

text \<open>
  An object is given by its own properties in the order of their creation.
  \<^verbatim>\<open>Object.keys\<close>, \<^verbatim>\<open>Object.entries\<close> and \<^verbatim>\<open>Object.assign\<close> enumerate them in the order of
  the language: first the keys that are array indices (\<^verbatim>\<open>"0"\<close>, or digits without a
  leading zero, below \<open>2\<^sup>3\<^sup>2 - 1\<close>) by ascending value, then the other keys in the order
  of creation.
\<close>

definition array_index_value :: "string \<Rightarrow> nat" where
  "array_index_value k = foldl (\<lambda>n c. 10 * n + (of_char c - of_char CHR ''0'')) 0 k"

definition is_array_index :: "string \<Rightarrow> bool" where
  "is_array_index k \<longleftrightarrow>
     k \<noteq> [] \<and> list_all digit k \<and> ((hd k = CHR ''0'') = (k = ''0''))
     \<and> array_index_value k < 2 ^ 32 - 1"

definition own_entries :: "(string \<times> 'v) list \<Rightarrow> (string \<times> 'v) list" where
  "own_entries obj =
     sort_key (\<lambda>(k, v). array_index_value k) (filter (\<lambda>(k, v). is_array_index k) obj)
     @ filter (\<lambda>(k, v). \<not> is_array_index k) obj"

text \<open>\<^verbatim>\<open>Object.keys(o)\<close>: the names of the own properties.\<close>

definition Object_keys :: "'n FlatConfig \<Rightarrow> string list" where
  "Object_keys obj = map fst (own_entries obj)"

text \<open>\<^verbatim>\<open>o[k]\<close> for an own property \<open>k\<close>. The comparator reads only keys that are own
  properties of both objects.\<close>

definition prop_get :: "'n FlatConfig \<Rightarrow> string \<Rightarrow> 'n scalar option" where
  "prop_get obj k = map_of obj k"

text \<open>
  \<^verbatim>\<open>flattenConfig\<close> and \<^verbatim>\<open>parseProperties\<close> collect their result in an object created by
  \<^verbatim>\<open>{}\<close> and written by \<^verbatim>\<open>o[k] = v\<close>. Such an object inherits the accessor
  \<^verbatim>\<open>__proto__\<close> from \<^verbatim>\<open>Object.prototype\<close>: while it does, \<^verbatim>\<open>o["__proto__"] = v\<close> runs
  the setter, which creates no own property; it does nothing for a string, number or
  boolean \<open>v\<close> and sets the prototype to \<^verbatim>\<open>null\<close> for \<^verbatim>\<open>v = null\<close>, after which the
  object inherits nothing. Every other assignment creates or overwrites an own property,
  which keeps its place in the order of creation.
\<close>

record 'n jsobject =
  inherits :: bool
  own :: "'n FlatConfig"

definition empty_object :: "'n jsobject" where
  "empty_object = \<lparr>inherits = True, own = []\<rparr>"

definition prop_set :: "string \<Rightarrow> 'n scalar \<Rightarrow> 'n jsobject \<Rightarrow> 'n jsobject" where
  "prop_set k v obj =
     (if k = ''__proto__'' \<and> inherits obj
      then (if v = SNull then obj\<lparr>inherits := False\<rparr> else obj)
      else obj\<lparr>own := AList.update k v (own obj)\<rparr>)"

text \<open>\<^verbatim>\<open>Object.assign(target, source)\<close>: each own property of the source, in the order of
  enumeration, is assigned to the target.\<close>

definition Object_assign :: "'n jsobject \<Rightarrow> 'n FlatConfig \<Rightarrow> 'n jsobject" where
  "Object_assign target source =
     foldl (\<lambda>obj (k, v). prop_set k v obj) target (own_entries source)"

section \<open>The comparator\<close>

record 'n ValueDifference =
  key :: string
  sourceValue :: "'n scalar option"
  targetValue :: "'n scalar option"

record 'n ComparisonResult =
  onlyInSource :: "string list"
  onlyInTarget :: "string list"
  common :: "string list"
  valueDifferences :: "'n ValueDifference list"

text \<open>\<^verbatim>\<open>new Set(xs)\<close> followed by \<^verbatim>\<open>[...set]\<close>: the elements in the order of their first
  occurrence.\<close>

definition Set_of :: "string list \<Rightarrow> string list" where
  "Set_of xs = rev (remdups (rev xs))"

definition compareFlatConfigs ::
  "'n numbers \<Rightarrow> 'n FlatConfig \<Rightarrow> 'n FlatConfig \<Rightarrow> 'n ComparisonResult" where
  "compareFlatConfigs N source target =
     (let sourceKeys = Set_of (Object_keys source);
          targetKeys = Set_of (Object_keys target);
          onlyInSource = sort (filter (\<lambda>k. k \<notin> set targetKeys) sourceKeys);
          onlyInTarget = sort (filter (\<lambda>k. k \<notin> set sourceKeys) targetKeys);
          common = sort (filter (\<lambda>k. k \<in> set targetKeys) sourceKeys);
          valueDifferences =
            map (\<lambda>k. \<lparr>key = k, sourceValue = prop_get source k, targetValue = prop_get target k\<rparr>)
              (filter (\<lambda>k. String_of N (prop_get source k) \<noteq> String_of N (prop_get target k))
                 common)
      in \<lparr>onlyInSource = onlyInSource, onlyInTarget = onlyInTarget, common = common,
          valueDifferences = valueDifferences\<rparr>)"

section \<open>Regular expressions\<close>

text \<open>
  The four patterns of \<^verbatim>\<open>detectFormat\<close> are sequences of character classes, starred or
  not, anchored by \<^verbatim>\<open>^\<close> and in one case closed by \<^verbatim>\<open>$\<close>, all under the \<^verbatim>\<open>m\<close> flag.
  \<open>rests a s\<close> lists what can remain of \<open>s\<close> after the atom \<open>a\<close> has matched a prefix of
  it, so that \<^verbatim>\<open>test\<close> succeeds when some choice of remainders goes through the whole
  pattern, whatever the engine's backtracking order.
\<close>

datatype atom =
    Chr "char \<Rightarrow> bool"
  | Many "char \<Rightarrow> bool"
  | Many1 "char \<Rightarrow> bool"
  | Eol

fun many_rests :: "(char \<Rightarrow> bool) \<Rightarrow> string \<Rightarrow> string list" where
  "many_rests p [] = [[]]"
| "many_rests p (c # cs) = (c # cs) # (if p c then many_rests p cs else [])"

fun rests :: "atom \<Rightarrow> string \<Rightarrow> string list" where
  "rests (Chr p) [] = []"
| "rests (Chr p) (c # cs) = (if p c then [cs] else [])"
| "rests (Many p) s = many_rests p s"
| "rests (Many1 p) [] = []"
| "rests (Many1 p) (c # cs) = (if p c then many_rests p cs else [])"
| "rests Eol [] = [[]]"
| "rests Eol (c # cs) = (if is_line_terminator c then [c # cs] else [])"

fun match_here :: "atom list \<Rightarrow> string \<Rightarrow> bool" where
  "match_here [] s = True"
| "match_here (a # as) s = list_ex (match_here as) (rests a s)"

text \<open>The positions at which \<^verbatim>\<open>^\<close> matches: the start of the input and every position
  just after a line terminator; each is given by the text from there on.\<close>

fun after_terminators :: "string \<Rightarrow> string list" where
  "after_terminators [] = []"
| "after_terminators (c # cs) =
     (if is_line_terminator c then cs # after_terminators cs else after_terminators cs)"

definition line_starts :: "string \<Rightarrow> string list" where
  "line_starts s = s # after_terminators s"

text \<open>\<^verbatim>\<open>/^...pattern.../m.test(content)\<close>.\<close>

definition regex_test :: "atom list \<Rightarrow> string \<Rightarrow> bool" where
  "regex_test pat content = list_ex (match_here pat) (line_starts content)"

text \<open>\<^verbatim>\<open>/^\s*\[[^\[\]]+\]\s*$/m\<close>\<close>

definition section_pattern :: "atom list" where
  "section_pattern =
     [Many is_space, Chr (\<lambda>c. c = CHR ''[''), Many1 (\<lambda>c. c \<noteq> CHR ''['' \<and> c \<noteq> CHR '']''),
      Chr (\<lambda>c. c = CHR '']''), Many is_space, Eol]"

text \<open>\<^verbatim>\<open>/^[a-zA-Z_][a-zA-Z0-9_\-]*\s*=/m\<close>\<close>

definition assignment_pattern :: "atom list" where
  "assignment_pattern =
     [Chr letter_or_underscore,
      Many (\<lambda>c. letter_or_underscore c \<or> digit c \<or> c = CHR ''-''),
      Many is_space, Chr (\<lambda>c. c = CHR ''='')]"

text \<open>\<^verbatim>\<open>/^[a-zA-Z_][a-zA-Z0-9_.\-]*\s*=\s*\S/m\<close>\<close>

definition properties_pattern :: "atom list" where
  "properties_pattern =
     [Chr letter_or_underscore,
      Many (\<lambda>c. letter_or_underscore c \<or> digit c \<or> c = CHR ''.'' \<or> c = CHR ''-''),
      Many is_space, Chr (\<lambda>c. c = CHR ''=''), Many is_space, Chr (\<lambda>c. \<not> is_space c)]"

text \<open>\<^verbatim>\<open>/^[a-zA-Z_][a-zA-Z0-9_]*\s*:/m\<close>\<close>

definition yaml_pattern :: "atom list" where
  "yaml_pattern =
     [Chr letter_or_underscore, Many (\<lambda>c. letter_or_underscore c \<or> digit c),
      Many is_space, Chr (\<lambda>c. c = CHR '':'')]"

section \<open>Format detection\<close>

datatype ConfigFormat = Json | Yaml | Toml | Ini | Xml | Properties

text \<open>
  The five parsers that come from libraries (\<^verbatim>\<open>JSON.parse\<close>, \<^verbatim>\<open>yaml\<close>,
  \<^verbatim>\<open>@iarna/toml\<close>, \<^verbatim>\<open>ini\<close>, \<^verbatim>\<open>fast-xml-parser\<close> as configured by
  \<^verbatim>\<open>parseXml\<close>) are parameters: each returns the tree, or throws a value of the type
  \<open>'e\<close> of the libraries' exceptions.
\<close>

record ('e, 'n) libs =
  JSON_parse :: "string \<Rightarrow> 'e + 'n ConfigNode"
  yaml_parse :: "string \<Rightarrow> 'e + 'n ConfigNode"
  toml_parse :: "string \<Rightarrow> 'e + 'n ConfigNode"
  ini_parse :: "string \<Rightarrow> 'e + 'n ConfigNode"
  xml_parse :: "string \<Rightarrow> 'e + 'n ConfigNode"

definition succeeds :: "'e + 'a \<Rightarrow> bool" where
  "succeeds r = (case r of Inl _ \<Rightarrow> False | Inr _ \<Rightarrow> True)"

definition hasSection :: "string \<Rightarrow> bool" where
  "hasSection content = regex_test section_pattern content"

definition hasSectionAssignment :: "string \<Rightarrow> bool" where
  "hasSectionAssignment content = regex_test assignment_pattern content"

definition hasProperties :: "string \<Rightarrow> bool" where
  "hasProperties content = regex_test properties_pattern content"

definition detectFormat :: "('e, 'n) libs \<Rightarrow> string \<Rightarrow> ConfigFormat option" where
  "detectFormat L content =
     (let stripped = trim content in
      if (startsWith stripped ''{'' \<or> startsWith stripped ''['') \<and> succeeds (JSON_parse L stripped)
      then Some Json
      else if startsWith stripped ''<'' \<or> str_includes (toLowerCase content) ''<?xml''
      then Some Xml
      else if hasSection content \<and> hasSectionAssignment content
      then (if succeeds (toml_parse L content) then Some Toml else Some Ini)
      else if hasProperties content \<and> \<not> hasSection content
      then Some Properties
      else if regex_test yaml_pattern content
      then Some Yaml
      else None)"

text \<open>
  \<^verbatim>\<open>extMap[ext]\<close> reads a property of an object literal, so besides the seven own keys it
  finds what the object inherits from \<^verbatim>\<open>Object.prototype\<close>. The extension is in lower
  case, and the inherited names in lower case are \<^verbatim>\<open>constructor\<close> (the function
  \<^verbatim>\<open>Object\<close>) and \<^verbatim>\<open>__proto__\<close> (the prototype object); both are truthy.
\<close>

datatype format_value = Format ConfigFormat | Object_constructor | Object_prototype

definition extMap :: "(string \<times> ConfigFormat) list" where
  "extMap =
     [(''json'', Json), (''yaml'', Yaml), (''yml'', Yaml), (''toml'', Toml), (''ini'', Ini),
      (''xml'', Xml), (''properties'', Properties)]"

definition extMap_get :: "string \<Rightarrow> format_value option" where
  "extMap_get ext =
     (case map_of extMap ext of
        Some f \<Rightarrow> Some (Format f)
      | None \<Rightarrow>
          if ext = ''constructor'' then Some Object_constructor
          else if ext = ''__proto__'' then Some Object_prototype
          else None)"

definition getFormatFromExtension :: "string \<Rightarrow> format_value option" where
  "getFormatFromExtension filepath =
     (let ext = pop (split_on CHR ''.'' (toLowerCase filepath))
      in extMap_get (case ext of None \<Rightarrow> [] | Some e \<Rightarrow> e))"

section \<open>The parsers\<close>

text \<open>The body of the loop of \<^verbatim>\<open>parseProperties\<close>. The array that \<^verbatim>\<open>split\<close> returns is
  never empty, so \<^verbatim>\<open>key\<close> is always a string.\<close>

definition property_line :: "'n jsobject \<Rightarrow> string \<Rightarrow> 'n jsobject" where
  "property_line props line =
     (let trimmed = trim line in
      if trimmed \<noteq> [] \<and> \<not> startsWith trimmed ''#'' \<and> str_includes trimmed ''=''
      then (case split_on CHR ''='' trimmed of
              [] \<Rightarrow> props
            | k # valueParts \<Rightarrow> prop_set (trim k) (SStr (trim (join ''='' valueParts))) props)
      else props)"

definition parseProperties_props :: "string \<Rightarrow> 'n jsobject" where
  "parseProperties_props content = foldl property_line empty_object (split_on CHR 0x0A content)"

text \<open>\<^verbatim>\<open>parseProperties\<close> returns the object \<^verbatim>\<open>props\<close>; as a tree its entries stand in the
  order of enumeration.\<close>

definition parseProperties :: "string \<Rightarrow> 'n ConfigNode" where
  "parseProperties content =
     Mapping (map (\<lambda>(k, v). (k, Scalar v)) (own_entries (own (parseProperties_props content))))"

text \<open>\<^verbatim>\<open>yaml.parse(content) || {}\<close>: a falsy document (\<^verbatim>\<open>null\<close>, \<^verbatim>\<open>false\<close>, the
  empty string, a falsy number) becomes the empty object.\<close>

fun falsy :: "'n numbers \<Rightarrow> 'n ConfigNode \<Rightarrow> bool" where
  "falsy N (Scalar SNull) = True"
| "falsy N (Scalar (SBool b)) = (\<not> b)"
| "falsy N (Scalar (SNum n)) = Number_falsy N n"
| "falsy N (Scalar (SStr s)) = (s = [])"
| "falsy N (Sequence xs) = False"
| "falsy N (Mapping es) = False"

definition parseYaml :: "'n numbers \<Rightarrow> ('e, 'n) libs \<Rightarrow> string \<Rightarrow> 'e + 'n ConfigNode" where
  "parseYaml N L content =
     (case yaml_parse L content of
        Inl e \<Rightarrow> Inl e
      | Inr n \<Rightarrow> Inr (if falsy N n then Mapping [] else n))"

text \<open>The \<^verbatim>\<open>switch\<close> of \<^verbatim>\<open>parseConfig\<close> on one of the six formats.\<close>

fun parse_as ::
  "'n numbers \<Rightarrow> ('e, 'n) libs \<Rightarrow> ConfigFormat \<Rightarrow> string \<Rightarrow> 'e + 'n ConfigNode" where
  "parse_as N L Json content = JSON_parse L content"
| "parse_as N L Yaml content = parseYaml N L content"
| "parse_as N L Toml content = toml_parse L content"
| "parse_as N L Ini content = ini_parse L content"
| "parse_as N L Xml content = xml_parse L content"
| "parse_as N L Properties content = Inr (parseProperties content)"

text \<open>What \<^verbatim>\<open>parseConfig\<close> throws: an \<^verbatim>\<open>Error\<close> it creates itself, with its message, or
  the exception of a library parser, which it does not catch.\<close>

datatype 'e error = Error string | Thrown 'e

text \<open>\<^verbatim>\<open>`${format}`\<close> for the values \<^verbatim>\<open>format\<close> can hold.\<close>

fun String_format :: "format_value \<Rightarrow> string" where
  "String_format (Format Json) = ''json''"
| "String_format (Format Yaml) = ''yaml''"
| "String_format (Format Toml) = ''toml''"
| "String_format (Format Ini) = ''ini''"
| "String_format (Format Xml) = ''xml''"
| "String_format (Format Properties) = ''properties''"
| "String_format Object_constructor = ''function Object() { [native code] }''"
| "String_format Object_prototype = ''[object Object]''"

text \<open>The variable \<^verbatim>\<open>format\<close> of \<^verbatim>\<open>parseConfig\<close> after the fallback to the extension;
  \<open>None\<close> is \<^verbatim>\<open>null\<close>.\<close>

definition chosen_format :: "('e, 'n) libs \<Rightarrow> string \<Rightarrow> string \<Rightarrow> format_value option" where
  "chosen_format L content filepath =
     (case detectFormat L content of
        Some f \<Rightarrow> Some (Format f)
      | None \<Rightarrow> getFormatFromExtension filepath)"

definition parseConfig ::
  "'n numbers \<Rightarrow> ('e, 'n) libs \<Rightarrow> string \<Rightarrow> string
     \<Rightarrow> 'e error + ('n ConfigNode \<times> ConfigFormat)" where
  "parseConfig N L content filepath =
     (case chosen_format L content filepath of
        None \<Rightarrow> Inl (Error (''Unable to detect format for '' @ filepath))
      | Some (Format f) \<Rightarrow>
          (case parse_as N L f content of
             Inl e \<Rightarrow> Inl (Thrown e)
           | Inr config \<Rightarrow> Inr (config, f))
      | Some v \<Rightarrow> Inl (Error (''Unsupported format: '' @ String_format v)))"

section \<open>The flattener\<close>

text \<open>
  \<^verbatim>\<open>flattenConfig(obj, prefix, sep)\<close>. A scalar, \<^verbatim>\<open>null\<close> included, is stored under a
  non-empty prefix. \<open>flatten_array\<close> is the \<^verbatim>\<open>forEach\<close> over an array from the index \<open>i\<close>
  on, and \<open>flatten_entries\<close> the loop over \<^verbatim>\<open>Object.entries\<close>; both carry the object
  \<^verbatim>\<open>items\<close>. In the loop over the entries a scalar is stored directly, and an array or
  an object is flattened under the new key and its result assigned to \<^verbatim>\<open>items\<close>.
\<close>

fun flattenConfig :: "'n ConfigNode \<Rightarrow> string \<Rightarrow> string \<Rightarrow> 'n FlatConfig"
  and flatten_array ::
    "'n ConfigNode list \<Rightarrow> nat \<Rightarrow> string \<Rightarrow> string \<Rightarrow> 'n jsobject \<Rightarrow> 'n jsobject"
  and flatten_entries ::
    "(string \<times> 'n ConfigNode) list \<Rightarrow> string \<Rightarrow> string \<Rightarrow> 'n jsobject \<Rightarrow> 'n jsobject"
where
  "flattenConfig (Scalar v) prefix sep =
     own (if prefix \<noteq> [] then prop_set prefix v empty_object else empty_object)"
| "flattenConfig (Sequence xs) prefix sep = own (flatten_array xs 0 prefix sep empty_object)"
| "flattenConfig (Mapping es) prefix sep = own (flatten_entries es prefix sep empty_object)"
| "flatten_array [] i prefix sep items = items"
| "flatten_array (x # xs) i prefix sep items =
     (let arrayKey = (if prefix \<noteq> [] then prefix @ ''['' @ digits i @ '']''
                      else ''['' @ digits i @ '']'')
      in flatten_array xs (i + 1) prefix sep
           (Object_assign items (flattenConfig x arrayKey sep)))"
| "flatten_entries [] prefix sep items = items"
| "flatten_entries ((k, x) # es) prefix sep items =
     (let newKey = (if prefix \<noteq> [] then prefix @ sep @ k else k)
      in flatten_entries es prefix sep
           (case x of
              Scalar v \<Rightarrow> prop_set newKey v items
            | _ \<Rightarrow> Object_assign items (flattenConfig x newKey sep)))"

text \<open>The default arguments: \<^verbatim>\<open>flattenConfig(obj)\<close>.\<close>

definition flattenConfig_default :: "'n ConfigNode \<Rightarrow> 'n FlatConfig" where
  "flattenConfig_default obj = flattenConfig obj [] ''.''"

section \<open>The key-assignment signal in the words of the specification\<close>

text \<open>
  The specification has one signal \<^verbatim>\<open>hasKeyAssignment\<close>, a line beginning with an
  identifier-like token followed by \<^verbatim>\<open>=\<close>, and uses it both for the keys of a section
  (\<^verbatim>\<open>k = "v"\<close>) and for the dotted keys of a properties file (\<^verbatim>\<open>server.port=8080\<close>). So
  the token is a letter or underscore followed by letters, digits, underscores, dots and
  hyphens, and white space may stand before the \<^verbatim>\<open>=\<close>. This is the reference the two
  patterns of the code are compared with.
\<close>

definition key_assignment_pattern :: "atom list" where
  "key_assignment_pattern =
     [Chr letter_or_underscore,
      Many (\<lambda>c. letter_or_underscore c \<or> digit c \<or> c = CHR ''.'' \<or> c = CHR ''-''),
      Many is_space, Chr (\<lambda>c. c = CHR ''='')]"

definition spec_hasKeyAssignment :: "string \<Rightarrow> bool" where
  "spec_hasKeyAssignment content = regex_test key_assignment_pattern content"

section \<open>The properties format in the words of the specification\<close>

text \<open>
  What one input line contributes according to the specification: a line that is not
  blank, is not a \<^verbatim>\<open>#\<close> comment and contains \<^verbatim>\<open>=\<close> is cut at its first \<^verbatim>\<open>=\<close> into a
  key and a value, both trimmed; every other line contributes nothing. This is the
  reference the loop of \<^verbatim>\<open>parseProperties\<close> is compared with.
\<close>

definition property_entry :: "string \<Rightarrow> (string \<times> string) option" where
  "property_entry line =
     (let t = trim line in
      if t \<noteq> [] \<and> hd t \<noteq> CHR ''#'' \<and> CHR ''='' \<in> set t
      then Some (trim (takeWhile (\<lambda>x. x \<noteq> CHR ''='') t),
                 trim (tl (dropWhile (\<lambda>x. x \<noteq> CHR ''='') t)))
      else None)"

section \<open>Numbers and library parsers for the examples\<close>

text \<open>The integers, printed in decimal as \<^verbatim>\<open>String()\<close> prints the integers of the
  examples; zero is the falsy one. They serve to instantiate theorems at concrete
  inputs only.\<close>

definition decimal :: "int \<Rightarrow> string" where
  "decimal i = (if i < 0 then CHR ''-'' # digits (nat (- i)) else digits (nat i))"

definition small_integers :: "int numbers" where
  "small_integers = \<lparr>Number_toString = decimal, Number_falsy = (\<lambda>i. i = 0)\<rparr>"

text \<open>A parser that knows the listed documents, each with the tree the library returns
  for it, and throws on every other input.\<close>

definition known_documents ::
  "(string \<times> int ConfigNode) list \<Rightarrow> string \<Rightarrow> unit + int ConfigNode" where
  "known_documents docs s = (case map_of docs s of None \<Rightarrow> Inl () | Some n \<Rightarrow> Inr n)"

definition sample_libs :: "(unit, int) libs" where
  "sample_libs =
     \<lparr>JSON_parse = known_documents [(''{\"k\":1}'', Mapping [(''k'', Scalar (SNum 1))])],
      yaml_parse = known_documents [(''key: value'', Mapping [(''key'', Scalar (SStr ''value''))])],
      toml_parse = known_documents
        [(''[s]\<newline>k = \"v\"'', Mapping [(''s'', Mapping [(''k'', Scalar (SStr ''v''))])]),
         (''a.b=1\<newline>[s]'',
            Mapping [(''a'', Mapping [(''b'', Scalar (SNum 1))]), (''s'', Mapping [])])],
      ini_parse = known_documents
        [(''[s]\<newline>k = \"v\"'', Mapping [(''s'', Mapping [(''k'', Scalar (SStr ''v''))])])],
      xml_parse = known_documents [(''<a/>'', Mapping [(''a'', Scalar (SStr []))])]\<rparr>"

section \<open>Properties of the comparator\<close>

lemma set_Set_of: "set (Set_of xs) = set xs"
  by (simp add: Set_of_def)

lemma distinct_Set_of: "distinct (Set_of xs)"
  by (simp add: Set_of_def)

text \<open>The order of enumeration: array indices first, by value; it changes no key and no
  value.\<close>

lemma array_index_examples:
  "is_array_index ''0''" "is_array_index ''10''" "\<not> is_array_index ''01''"
  "\<not> is_array_index ''a[0]''" "\<not> is_array_index []" "\<not> is_array_index ''-1''"
  "is_array_index ''4294967294''" "\<not> is_array_index ''4294967295''"
  by (simp_all add: is_array_index_def array_index_value_def digit_def)

lemma own_entries_example:
  "own_entries [(''b'', x), (''10'', y), (''2'', z), (''01'', w)]
     = [(''2'', z), (''10'', y), (''b'', x), (''01'', w)]"
  by (simp add: own_entries_def is_array_index_def array_index_value_def digit_def)

lemma set_own_entries: "set (own_entries obj) = set obj"
  by (auto simp: own_entries_def)

lemma own_entries_Nil: "own_entries [] = []"
  by (simp add: own_entries_def)

lemma set_Object_keys: "set (Object_keys obj) = fst ` set obj"
  by (simp add: Object_keys_def set_own_entries)

lemma onlyInSource_eq:
  "onlyInSource (compareFlatConfigs N s t) =
     sort (filter (\<lambda>k. k \<notin> set (Object_keys t)) (Set_of (Object_keys s)))"
  by (simp add: compareFlatConfigs_def Let_def set_Set_of)

lemma onlyInTarget_eq:
  "onlyInTarget (compareFlatConfigs N s t) =
     sort (filter (\<lambda>k. k \<notin> set (Object_keys s)) (Set_of (Object_keys t)))"
  by (simp add: compareFlatConfigs_def Let_def set_Set_of)

lemma common_eq:
  "common (compareFlatConfigs N s t) =
     sort (filter (\<lambda>k. k \<in> set (Object_keys t)) (Set_of (Object_keys s)))"
  by (simp add: compareFlatConfigs_def Let_def set_Set_of)

lemma valueDifferences_eq:
  "valueDifferences (compareFlatConfigs N s t) =
     map (\<lambda>k. \<lparr>key = k, sourceValue = prop_get s k, targetValue = prop_get t k\<rparr>)
       (filter (\<lambda>k. String_of N (prop_get s k) \<noteq> String_of N (prop_get t k))
         (common (compareFlatConfigs N s t)))"
  by (simp add: compareFlatConfigs_def Let_def)

lemma set_onlyInSource:
  "set (onlyInSource (compareFlatConfigs N s t)) = set (Object_keys s) - set (Object_keys t)"
  by (auto simp: onlyInSource_eq set_Set_of)

lemma set_onlyInTarget:
  "set (onlyInTarget (compareFlatConfigs N s t)) = set (Object_keys t) - set (Object_keys s)"
  by (auto simp: onlyInTarget_eq set_Set_of)

lemma set_common:
  "set (common (compareFlatConfigs N s t)) = set (Object_keys s) \<inter> set (Object_keys t)"
  by (auto simp: common_eq set_Set_of)

lemma distinct_common: "distinct (common (compareFlatConfigs N s t))"
  by (simp add: common_eq distinct_Set_of)

text \<open>
  Claim C1 (partition law). For every pair of flat configs the three key lists of the
  result are pairwise disjoint, \<open>common\<close> holds exactly the keys present in both objects,
  and together the three lists hold exactly the keys of the source and of the target.
\<close>

theorem compareFlatConfigs_partition:
  "set (onlyInSource (compareFlatConfigs N s t)) \<inter> set (common (compareFlatConfigs N s t)) = {}
   \<and> set (onlyInSource (compareFlatConfigs N s t)) \<inter> set (onlyInTarget (compareFlatConfigs N s t)) = {}
   \<and> set (common (compareFlatConfigs N s t)) \<inter> set (onlyInTarget (compareFlatConfigs N s t)) = {}
   \<and> set (common (compareFlatConfigs N s t)) = set (Object_keys s) \<inter> set (Object_keys t)
   \<and> set (onlyInSource (compareFlatConfigs N s t)) \<union> set (common (compareFlatConfigs N s t))
       \<union> set (onlyInTarget (compareFlatConfigs N s t))
     = set (Object_keys s) \<union> set (Object_keys t)"
  unfolding set_onlyInSource set_onlyInTarget set_common by blast

lemma keys_valueDifferences:
  "map key (valueDifferences (compareFlatConfigs N s t)) =
     filter (\<lambda>k. String_of N (prop_get s k) \<noteq> String_of N (prop_get t k))
       (common (compareFlatConfigs N s t))"
  by (simp add: valueDifferences_eq comp_def)

lemma sourceValues_valueDifferences:
  "map sourceValue (valueDifferences (compareFlatConfigs N s t)) =
     map (prop_get s) (map key (valueDifferences (compareFlatConfigs N s t)))"
  by (simp add: valueDifferences_eq comp_def)

lemma targetValues_valueDifferences:
  "map targetValue (valueDifferences (compareFlatConfigs N s t)) =
     map (prop_get t) (map key (valueDifferences (compareFlatConfigs N s t)))"
  by (simp add: valueDifferences_eq comp_def)

lemma prop_get_own: "k \<in> set (Object_keys obj) \<Longrightarrow> \<exists>v. prop_get obj k = Some v \<and> (k, v) \<in> set obj"
  unfolding prop_get_def set_Object_keys
  by (metis map_of_SomeD map_of_eq_None_iff not_None_eq)

lemma defined_valueDifferences:
  "None \<notin> set (map sourceValue (valueDifferences (compareFlatConfigs N s t)))
   \<and> None \<notin> set (map targetValue (valueDifferences (compareFlatConfigs N s t)))"
proof -
  have "\<And>k. k \<in> set (common (compareFlatConfigs N s t)) \<Longrightarrow> prop_get s k \<noteq> None \<and> prop_get t k \<noteq> None"
    unfolding set_common using prop_get_own by fastforce
  then have "\<And>k. k \<in> set (map key (valueDifferences (compareFlatConfigs N s t)))
      \<Longrightarrow> prop_get s k \<noteq> None \<and> prop_get t k \<noteq> None"
    unfolding keys_valueDifferences by simp
  then show ?thesis
    unfolding sourceValues_valueDifferences targetValues_valueDifferences
    by (metis (no_types, lifting) imageE list.set_map)
qed

text \<open>
  Claim C2. The keys of \<open>valueDifferences\<close> are exactly the common keys whose stringified
  source and target values differ, each once and in the order of \<open>common\<close>; every entry
  holds the values as read from the two objects, not their strings; and comparing
  \<^verbatim>\<open>{a: 5432}\<close> with \<^verbatim>\<open>{a: "5432"}\<close> yields no value difference, 5432 being a number
  that \<^verbatim>\<open>String()\<close> prints as \<^verbatim>\<open>"5432"\<close>. \<^verbatim>\<open>String()\<close> of a number is a parameter, so
  all of this holds for the printing of the language, also where it is not plain decimal.
\<close>

theorem valueDifferences_exact:
  "map key (valueDifferences (compareFlatConfigs N s t)) =
     filter (\<lambda>k. String_of N (prop_get s k) \<noteq> String_of N (prop_get t k))
       (common (compareFlatConfigs N s t))
   \<and> key ` set (valueDifferences (compareFlatConfigs N s t)) =
     {k \<in> set (Object_keys s) \<inter> set (Object_keys t).
        String_of N (prop_get s k) \<noteq> String_of N (prop_get t k)}
   \<and> distinct (map key (valueDifferences (compareFlatConfigs N s t)))
   \<and> set (map key (valueDifferences (compareFlatConfigs N s t))) \<subseteq> set (common (compareFlatConfigs N s t))
   \<and> map sourceValue (valueDifferences (compareFlatConfigs N s t)) =
       map (prop_get s) (map key (valueDifferences (compareFlatConfigs N s t)))
   \<and> map targetValue (valueDifferences (compareFlatConfigs N s t)) =
       map (prop_get t) (map key (valueDifferences (compareFlatConfigs N s t)))
   \<and> None \<notin> set (map sourceValue (valueDifferences (compareFlatConfigs N s t)))
   \<and> None \<notin> set (map targetValue (valueDifferences (compareFlatConfigs N s t)))
   \<and> (Number_toString N n = ''5432''
        \<longrightarrow> valueDifferences (compareFlatConfigs N [(''a'', SNum n)] [(''a'', SStr ''5432'')]) = [])"
proof -
  have ex: "valueDifferences (compareFlatConfigs N [(''a'', SNum n)] [(''a'', SStr ''5432'')]) = []"
    if "Number_toString N n = ''5432''"
    using that by (simp add: valueDifferences_eq prop_get_def)
  have ks: "key ` set (valueDifferences (compareFlatConfigs N s t)) =
     {k \<in> set (Object_keys s) \<inter> set (Object_keys t).
        String_of N (prop_get s k) \<noteq> String_of N (prop_get t k)}"
  proof -
    have "key ` set (valueDifferences (compareFlatConfigs N s t)) =
        set (map key (valueDifferences (compareFlatConfigs N s t)))"
      by simp
    then show ?thesis
      unfolding keys_valueDifferences set_filter set_common by simp
  qed
  have d: "distinct (map key (valueDifferences (compareFlatConfigs N s t)))"
    unfolding keys_valueDifferences by (simp add: distinct_common)
  have sub: "set (map key (valueDifferences (compareFlatConfigs N s t))) \<subseteq> set (common (compareFlatConfigs N s t))"
    unfolding keys_valueDifferences by auto
  show ?thesis
    using ex ks d sub keys_valueDifferences [of N s t] sourceValues_valueDifferences [of N s t]
      targetValues_valueDifferences [of N s t] defined_valueDifferences [of N s t]
    by blast
qed

text \<open>A number against a string under one key: a difference is reported exactly when
  \<^verbatim>\<open>String()\<close> of the number is not the string, whatever the number and its printing.\<close>

lemma compare_number_with_string:
  "valueDifferences (compareFlatConfigs N [(''a'', SNum n)] [(''a'', SStr s)])
     = (if Number_toString N n = s then []
        else [\<lparr>key = ''a'', sourceValue = Some (SNum n), targetValue = Some (SStr s)\<rparr>])"
  by (simp add: valueDifferences_eq common_eq prop_get_def Object_keys_def Set_of_def
      own_entries_def is_array_index_def digit_def)

text \<open>The hypothesis of C2 at the integers printed in decimal: \<^verbatim>\<open>{a: 5432}\<close> against
  \<^verbatim>\<open>{a: "5432"}\<close>.\<close>

theorem valueDifferences_exact_witness:
  "Number_toString small_integers 5432 = ''5432''
   \<and> valueDifferences (compareFlatConfigs small_integers [(''a'', SNum 5432)] [(''a'', SStr ''5432'')])
       = []"
proof -
  have h: "Number_toString small_integers 5432 = ''5432''"
    by (simp add: small_integers_def decimal_def digits.simps)
  from h valueDifferences_exact [of small_integers "[(''a'', SNum 5432)]" "[(''a'', SStr ''5432'')]" 5432]
  show ?thesis by blast
qed

text \<open>
  Claim C5. The three key lists are sorted ascending in the lexicographic order of the raw
  path strings, brackets included: \<^verbatim>\<open>"a[10]"\<close> comes before \<^verbatim>\<open>"a[2]"\<close>.
\<close>

theorem compareFlatConfigs_sorted:
  "sorted (onlyInSource (compareFlatConfigs N s t))
   \<and> sorted (onlyInTarget (compareFlatConfigs N s t))
   \<and> sorted (common (compareFlatConfigs N s t))
   \<and> onlyInSource (compareFlatConfigs N [(''a[2]'', SNum 1), (''a[10]'', SNum 2)] []) = [''a[10]'', ''a[2]'']
   \<and> ''a[10]'' < ''a[2]''"
  by (simp add: onlyInSource_eq onlyInTarget_eq common_eq Object_keys_def Set_of_def
      own_entries_def is_array_index_def digit_def)

text \<open>
  Claim C9. A common key whose value is \<^verbatim>\<open>null\<close> on one side and the string
  \<^verbatim>\<open>"null"\<close> on the other yields no value difference: \<^verbatim>\<open>String(null)\<close> is the
  four-character string \<^verbatim>\<open>"null"\<close>.
\<close>

theorem null_equals_null_string:
  assumes "prop_get s k = Some SNull \<and> prop_get t k = Some (SStr ''null'')
           \<or> prop_get s k = Some (SStr ''null'') \<and> prop_get t k = Some SNull"
  shows "k \<in> set (common (compareFlatConfigs N s t))
         \<and> k \<notin> key ` set (valueDifferences (compareFlatConfigs N s t))"
proof -
  have "k \<in> set (Object_keys s) \<inter> set (Object_keys t)"
    using assms unfolding prop_get_def set_Object_keys
    by (metis IntI domI dom_map_of_conv_image_fst)
  moreover have "String_of N (prop_get s k) = String_of N (prop_get t k)"
    using assms by auto
  moreover have "key ` set (valueDifferences (compareFlatConfigs N s t)) =
      set (map key (valueDifferences (compareFlatConfigs N s t)))"
    by simp
  ultimately show ?thesis
    unfolding keys_valueDifferences set_filter set_common by simp
qed

text \<open>The hypothesis of C9 at \<^verbatim>\<open>{a: null}\<close> against \<^verbatim>\<open>{a: "null"}\<close>.\<close>

theorem null_equals_null_string_witness:
  "prop_get [(''a'', SNull :: int scalar)] ''a'' = Some SNull
   \<and> prop_get [(''a'', SStr ''null'' :: int scalar)] ''a'' = Some (SStr ''null'')
   \<and> ''a'' \<in> set (common (compareFlatConfigs small_integers [(''a'', SNull)] [(''a'', SStr ''null'')]))
   \<and> ''a'' \<notin> key ` set (valueDifferences
         (compareFlatConfigs small_integers [(''a'', SNull)] [(''a'', SStr ''null'')]))"
proof -
  have h: "prop_get [(''a'', SNull :: int scalar)] ''a'' = Some SNull
     \<and> prop_get [(''a'', SStr ''null'' :: int scalar)] ''a'' = Some (SStr ''null'')"
    by (simp add: prop_get_def)
  from h null_equals_null_string [of "[(''a'', SNull)]" "''a''" "[(''a'', SStr ''null'')]" small_integers]
  show ?thesis by blast
qed

section \<open>Properties of the string operations\<close>

text \<open>Setting bit 5 of an upper-case letter adds 32 to its code.\<close>

lemma lower_char_plus_32:
  "lower_char c =
     (if (CHR ''A'' \<le> c \<and> c \<le> CHR ''Z'') \<or> (CHR 0xC0 \<le> c \<and> c \<le> CHR 0xDE \<and> c \<noteq> CHR 0xD7)
      then char_of (of_char c + (32::nat)) else c)"
proof (cases c)
  case (Char b0 b1 b2 b3 b4 b5 b6 b7)
  show ?thesis
    unfolding Char lower_char_def
    by (cases b0; cases b1; cases b2; cases b3; cases b4; cases b5; cases b6; cases b7)
       (simp_all add: char_of_def bit_0)
qed

section \<open>Properties of the patterns\<close>

lemma many_rests_iff: "r \<in> set (many_rests p s) \<longleftrightarrow> (\<exists>pre. s = pre @ r \<and> list_all p pre)"
proof (induction s)
  case Nil
  show ?case by auto
next
  case (Cons c cs)
  show ?case
  proof
    assume "r \<in> set (many_rests p (c # cs))"
    then consider "r = c # cs" | "p c" "r \<in> set (many_rests p cs)"
      by (auto split: if_splits)
    then show "\<exists>pre. c # cs = pre @ r \<and> list_all p pre"
    proof cases
      case 1
      then have "c # cs = [] @ r \<and> list_all p []" by simp
      then show ?thesis by blast
    next
      case 2
      then obtain pre where "cs = pre @ r" "list_all p pre" using Cons by blast
      with 2 have "c # cs = (c # pre) @ r \<and> list_all p (c # pre)" by simp
      then show ?thesis by blast
    qed
  next
    assume "\<exists>pre. c # cs = pre @ r \<and> list_all p pre"
    then obtain pre where pre: "c # cs = pre @ r" "list_all p pre" by blast
    show "r \<in> set (many_rests p (c # cs))"
    proof (cases pre)
      case Nil
      with pre have "r = c # cs" by simp
      then show ?thesis by simp
    next
      case (Cons x xs)
      with pre have "p c" "cs = xs @ r" "list_all p xs" by auto
      then show ?thesis using Cons.IH by auto
    qed
  qed
qed

lemma rests_Chr_iff: "r \<in> set (rests (Chr p) s) \<longleftrightarrow> (\<exists>c. s = c # r \<and> p c)"
  by (cases s) auto

lemma rests_Many_iff: "r \<in> set (rests (Many p) s) \<longleftrightarrow> (\<exists>pre. s = pre @ r \<and> list_all p pre)"
  by (simp add: many_rests_iff)

lemma rests_Many1_iff:
  "r \<in> set (rests (Many1 p) s) \<longleftrightarrow> (\<exists>pre. s = pre @ r \<and> pre \<noteq> [] \<and> list_all p pre)"
proof (cases s)
  case Nil
  then show ?thesis by simp
next
  case (Cons c cs)
  show ?thesis
  proof
    assume "r \<in> set (rests (Many1 p) s)"
    with Cons have "p c" "r \<in> set (many_rests p cs)" by (auto split: if_splits)
    then obtain pre where "cs = pre @ r" "list_all p pre" using many_rests_iff by blast
    with Cons \<open>p c\<close> have "s = (c # pre) @ r \<and> c # pre \<noteq> [] \<and> list_all p (c # pre)" by simp
    then show "\<exists>pre. s = pre @ r \<and> pre \<noteq> [] \<and> list_all p pre" by blast
  next
    assume "\<exists>pre. s = pre @ r \<and> pre \<noteq> [] \<and> list_all p pre"
    then obtain pre where pre: "s = pre @ r" "pre \<noteq> []" "list_all p pre" by blast
    then obtain x xs where "pre = x # xs" by (cases pre) auto
    with pre Cons have "p c" "cs = xs @ r" "list_all p xs" by auto
    then show "r \<in> set (rests (Many1 p) s)"
      using Cons many_rests_iff [of r p cs] by auto
  qed
qed

lemma rests_Eol_iff: "r \<in> set (rests Eol s) \<longleftrightarrow> r = s \<and> (s = [] \<or> is_line_terminator (hd s))"
  by (cases s) auto

lemma match_here_Cons: "match_here (a # as) s \<longleftrightarrow> (\<exists>r. r \<in> set (rests a s) \<and> match_here as r)"
  by (auto simp: list_ex_iff)

lemma after_terminators_iff:
  "l \<in> set (after_terminators s) \<longleftrightarrow> (\<exists>pre c. s = pre @ c # l \<and> is_line_terminator c)"
proof (induction s)
  case Nil
  show ?case by simp
next
  case (Cons x xs)
  show ?case
  proof
    assume "l \<in> set (after_terminators (x # xs))"
    then consider "is_line_terminator x" "l = xs" | "l \<in> set (after_terminators xs)"
      by (auto split: if_splits)
    then show "\<exists>pre c. x # xs = pre @ c # l \<and> is_line_terminator c"
    proof cases
      case 1
      then have "x # xs = [] @ x # l \<and> is_line_terminator x" by simp
      then show ?thesis by blast
    next
      case 2
      then obtain pre c where "xs = pre @ c # l" "is_line_terminator c" using Cons by blast
      then have "x # xs = (x # pre) @ c # l \<and> is_line_terminator c" by simp
      then show ?thesis by blast
    qed
  next
    assume "\<exists>pre c. x # xs = pre @ c # l \<and> is_line_terminator c"
    then obtain pre c where pc: "x # xs = pre @ c # l" "is_line_terminator c" by blast
    show "l \<in> set (after_terminators (x # xs))"
    proof (cases pre)
      case Nil
      with pc show ?thesis by simp
    next
      case (Cons y ys)
      with pc have "xs = ys @ c # l" by simp
      with pc Cons.IH have "l \<in> set (after_terminators xs)" by blast
      then show ?thesis by simp
    qed
  qed
qed

text \<open>\<^verbatim>\<open>^\<close> under the \<^verbatim>\<open>m\<close> flag: the text from the start of a line on.\<close>

lemma line_starts_iff:
  "l \<in> set (line_starts s) \<longleftrightarrow> (\<exists>pre. s = pre @ l \<and> (pre = [] \<or> is_line_terminator (last pre)))"
proof
  assume "l \<in> set (line_starts s)"
  then consider "l = s" | "l \<in> set (after_terminators s)" by (auto simp: line_starts_def)
  then show "\<exists>pre. s = pre @ l \<and> (pre = [] \<or> is_line_terminator (last pre))"
  proof cases
    case 1
    then show ?thesis by simp
  next
    case 2
    then obtain pre c where "s = pre @ c # l" "is_line_terminator c"
      using after_terminators_iff by blast
    then have "s = (pre @ [c]) @ l \<and> is_line_terminator (last (pre @ [c]))" by simp
    then show ?thesis by blast
  qed
next
  assume "\<exists>pre. s = pre @ l \<and> (pre = [] \<or> is_line_terminator (last pre))"
  then obtain pre where pre: "s = pre @ l" "pre = [] \<or> is_line_terminator (last pre)" by blast
  show "l \<in> set (line_starts s)"
  proof (cases "pre = []")
    case True
    with pre show ?thesis by (simp add: line_starts_def)
  next
    case False
    with pre have "s = butlast pre @ last pre # l" "is_line_terminator (last pre)" by simp_all
    then have "l \<in> set (after_terminators s)" using after_terminators_iff by blast
    then show ?thesis by (simp add: line_starts_def)
  qed
qed

lemma regex_test_iff:
  "regex_test pat s \<longleftrightarrow>
     (\<exists>pre l. s = pre @ l \<and> (pre = [] \<or> is_line_terminator (last pre)) \<and> match_here pat l)"
  unfolding regex_test_def list_ex_iff using line_starts_iff by blast

text \<open>What \<^verbatim>\<open>/^[a-zA-Z_][a-zA-Z0-9_.\-]*\s*=\s*\S/\<close> matches at the start of a text.\<close>

lemma match_properties_pattern:
  "match_here properties_pattern l \<longleftrightarrow>
     (\<exists>c ident ws1 ws2 d rest.
        l = c # ident @ ws1 @ CHR ''='' # ws2 @ d # rest
        \<and> letter_or_underscore c
        \<and> list_all (\<lambda>x. letter_or_underscore x \<or> digit x \<or> x = CHR ''.'' \<or> x = CHR ''-'') ident
        \<and> list_all is_space ws1 \<and> list_all is_space ws2 \<and> \<not> is_space d)"
  unfolding properties_pattern_def match_here_Cons rests_Chr_iff rests_Many_iff
  by (simp; blast)

lemma match_assignment_pattern:
  "match_here assignment_pattern l \<longleftrightarrow>
     (\<exists>c ident ws rest.
        l = c # ident @ ws @ CHR ''='' # rest
        \<and> letter_or_underscore c
        \<and> list_all (\<lambda>x. letter_or_underscore x \<or> digit x \<or> x = CHR ''-'') ident
        \<and> list_all is_space ws)"
  unfolding assignment_pattern_def match_here_Cons rests_Chr_iff rests_Many_iff
  by (simp; blast)

lemma match_section_pattern:
  "match_here section_pattern l \<longleftrightarrow>
     (\<exists>ws1 name ws2 rest.
        l = ws1 @ CHR ''['' # name @ CHR '']'' # ws2 @ rest
        \<and> list_all is_space ws1 \<and> name \<noteq> []
        \<and> list_all (\<lambda>x. x \<noteq> CHR ''['' \<and> x \<noteq> CHR '']'') name
        \<and> list_all is_space ws2 \<and> (rest = [] \<or> is_line_terminator (hd rest)))"
  unfolding section_pattern_def match_here_Cons rests_Chr_iff rests_Many_iff rests_Many1_iff rests_Eol_iff
  by (simp; blast)

text \<open>The signal \<^verbatim>\<open>hasProperties\<close> in words: some line begins with a letter or underscore,
  goes on with letters, digits, underscores, dots and hyphens, then optional white space,
  \<^verbatim>\<open>=\<close>, optional white space, and a character that is not white space.\<close>

lemma hasProperties_iff:
  "hasProperties content \<longleftrightarrow>
     (\<exists>pre c ident ws1 ws2 d rest.
        content = pre @ c # ident @ ws1 @ CHR ''='' # ws2 @ d # rest
        \<and> (pre = [] \<or> is_line_terminator (last pre))
        \<and> letter_or_underscore c
        \<and> list_all (\<lambda>x. letter_or_underscore x \<or> digit x \<or> x = CHR ''.'' \<or> x = CHR ''-'') ident
        \<and> list_all is_space ws1 \<and> list_all is_space ws2 \<and> \<not> is_space d)"
  unfolding hasProperties_def regex_test_iff match_properties_pattern by blast

text \<open>The signal \<^verbatim>\<open>hasSectionAssignment\<close> in words: some line begins with a letter or
  underscore, goes on with letters, digits, underscores and hyphens, then optional white
  space and \<^verbatim>\<open>=\<close>.\<close>

lemma hasSectionAssignment_iff:
  "hasSectionAssignment content \<longleftrightarrow>
     (\<exists>pre c ident ws rest.
        content = pre @ c # ident @ ws @ CHR ''='' # rest
        \<and> (pre = [] \<or> is_line_terminator (last pre))
        \<and> letter_or_underscore c
        \<and> list_all (\<lambda>x. letter_or_underscore x \<or> digit x \<or> x = CHR ''-'') ident
        \<and> list_all is_space ws)"
  unfolding hasSectionAssignment_def regex_test_iff match_assignment_pattern by blast

text \<open>The signal \<^verbatim>\<open>hasSection\<close> in words: from the start of some line on there is optional
  white space, \<^verbatim>\<open>[\<close>, a non-empty name without brackets, \<^verbatim>\<open>]\<close>, optional white space, and
  then the end of a line.\<close>

lemma hasSection_iff:
  "hasSection content \<longleftrightarrow>
     (\<exists>pre ws1 name ws2 rest.
        content = pre @ ws1 @ CHR ''['' # name @ CHR '']'' # ws2 @ rest
        \<and> (pre = [] \<or> is_line_terminator (last pre))
        \<and> list_all is_space ws1 \<and> name \<noteq> []
        \<and> list_all (\<lambda>x. x \<noteq> CHR ''['' \<and> x \<noteq> CHR '']'') name
        \<and> list_all is_space ws2 \<and> (rest = [] \<or> is_line_terminator (hd rest)))"
  unfolding hasSection_def regex_test_iff match_section_pattern by blast

text \<open>The signal of the specification in words, and the two patterns of the code against
  it: each of them implies it, and neither is it.\<close>

lemma match_key_assignment_pattern:
  "match_here key_assignment_pattern l \<longleftrightarrow>
     (\<exists>c ident ws rest.
        l = c # ident @ ws @ CHR ''='' # rest
        \<and> letter_or_underscore c
        \<and> list_all (\<lambda>x. letter_or_underscore x \<or> digit x \<or> x = CHR ''.'' \<or> x = CHR ''-'') ident
        \<and> list_all is_space ws)"
  unfolding key_assignment_pattern_def match_here_Cons rests_Chr_iff rests_Many_iff
  by (simp; blast)

lemma spec_hasKeyAssignment_iff:
  "spec_hasKeyAssignment content \<longleftrightarrow>
     (\<exists>pre c ident ws rest.
        content = pre @ c # ident @ ws @ CHR ''='' # rest
        \<and> (pre = [] \<or> is_line_terminator (last pre))
        \<and> letter_or_underscore c
        \<and> list_all (\<lambda>x. letter_or_underscore x \<or> digit x \<or> x = CHR ''.'' \<or> x = CHR ''-'') ident
        \<and> list_all is_space ws)"
  unfolding spec_hasKeyAssignment_def regex_test_iff match_key_assignment_pattern by blast

lemma hasSectionAssignment_spec:
  assumes "hasSectionAssignment content"
  shows "spec_hasKeyAssignment content"
proof -
  from assms obtain pre c ident ws rest where d:
    "content = pre @ c # ident @ ws @ CHR ''='' # rest"
    "pre = [] \<or> is_line_terminator (last pre)" "letter_or_underscore c"
    "list_all (\<lambda>x. letter_or_underscore x \<or> digit x \<or> x = CHR ''-'') ident"
    "list_all is_space ws"
    unfolding hasSectionAssignment_iff by blast
  from d(4) have "list_all (\<lambda>x. letter_or_underscore x \<or> digit x \<or> x = CHR ''.'' \<or> x = CHR ''-'') ident"
    by (auto simp: list_all_iff)
  with d show ?thesis unfolding spec_hasKeyAssignment_iff by blast
qed

lemma hasProperties_spec:
  assumes "hasProperties content"
  shows "spec_hasKeyAssignment content"
proof -
  from assms obtain pre c ident ws1 ws2 d rest where d:
    "content = pre @ c # ident @ ws1 @ CHR ''='' # ws2 @ d # rest"
    "pre = [] \<or> is_line_terminator (last pre)" "letter_or_underscore c"
    "list_all (\<lambda>x. letter_or_underscore x \<or> digit x \<or> x = CHR ''.'' \<or> x = CHR ''-'') ident"
    "list_all is_space ws1"
    unfolding hasProperties_iff by blast
  then have "content = pre @ c # ident @ ws1 @ CHR ''='' # (ws2 @ d # rest)" by simp
  with d(2-5) show ?thesis unfolding spec_hasKeyAssignment_iff by blast
qed

section \<open>Properties of detection and dispatch\<close>

lemmas string_eval =
  trim_def is_space_def is_line_terminator_def startsWith_def toLowerCase_def lower_char_def
  letter_or_underscore_def digit_def

lemmas regex_eval =
  hasSection_def hasSectionAssignment_def hasProperties_def regex_test_def line_starts_def
  section_pattern_def assignment_pattern_def properties_pattern_def yaml_pattern_def
  spec_hasKeyAssignment_def key_assignment_pattern_def

lemmas object_eval = own_entries_def is_array_index_def digit_def

lemmas sample_eval = sample_libs_def known_documents_def succeeds_def

text \<open>
  Claim C3 as stated fails. In \<^verbatim>\<open>key=\<close> a line begins with an identifier followed by
  \<^verbatim>\<open>=\<close>, there is no section header, and the content starts with none of \<^verbatim>\<open>{\<close>, \<^verbatim>\<open>[\<close>,
  \<^verbatim>\<open><\<close> and holds no XML declaration; the result is \<^verbatim>\<open>null\<close>, not \<open>properties\<close>, because
  the properties step tests a pattern of its own, which asks for a value after the \<^verbatim>\<open>=\<close>.
\<close>

theorem detectFormat_properties_counterexample:
  "\<not> startsWith (trim ''key='') ''{'' \<and> \<not> startsWith (trim ''key='') ''[''
   \<and> \<not> startsWith (trim ''key='') ''<'' \<and> \<not> str_includes (toLowerCase ''key='') ''<?xml''
   \<and> hasSectionAssignment ''key='' \<and> spec_hasKeyAssignment ''key='' \<and> \<not> hasSection ''key=''
   \<and> detectFormat sample_libs ''key='' = None"
  by (simp add: detectFormat_def regex_eval string_eval)

text \<open>
  Claim C3, amended. If the trimmed content starts with none of \<^verbatim>\<open>{\<close>, \<^verbatim>\<open>[\<close>, \<^verbatim>\<open><\<close>, the
  content holds no XML declaration, no line is a section header, and some line begins
  with a letter or underscore followed by letters, digits, underscores, dots and hyphens,
  optional white space, \<^verbatim>\<open>=\<close>, optional white space and a character that is not white
  space, then \<^verbatim>\<open>detectFormat\<close> returns \<open>properties\<close>.
\<close>

theorem detectFormat_properties:
  assumes "\<not> startsWith (trim content) ''{''" and "\<not> startsWith (trim content) ''[''"
    and "\<not> startsWith (trim content) ''<''" and "\<not> str_includes (toLowerCase content) ''<?xml''"
    and "content = pre @ c # ident @ ws1 @ CHR ''='' # ws2 @ d # rest"
    and "pre = [] \<or> is_line_terminator (last pre)"
    and "letter_or_underscore c"
    and "list_all (\<lambda>x. letter_or_underscore x \<or> digit x \<or> x = CHR ''.'' \<or> x = CHR ''-'') ident"
    and "list_all is_space ws1" and "list_all is_space ws2" and "\<not> is_space d"
    and "\<not> hasSection content"
  shows "detectFormat L content = Some Properties"
proof -
  have "hasProperties content"
    unfolding hasProperties_iff using assms(5-11) by blast
  with assms(1-4,12) show ?thesis
    unfolding detectFormat_def Let_def by simp
qed

text \<open>The hypotheses of C3 at a comment line followed by \<^verbatim>\<open>db.url = x\<close>.\<close>

theorem detectFormat_properties_witness:
  "\<not> startsWith (trim ''# c\<newline>db.url = x'') ''{''
   \<and> \<not> startsWith (trim ''# c\<newline>db.url = x'') ''[''
   \<and> \<not> startsWith (trim ''# c\<newline>db.url = x'') ''<''
   \<and> \<not> str_includes (toLowerCase ''# c\<newline>db.url = x'') ''<?xml''
   \<and> ''# c\<newline>db.url = x'' = ''# c\<newline>'' @ CHR ''d'' # ''b.url'' @ '' '' @ CHR ''='' # '' '' @ CHR ''x'' # []
   \<and> is_line_terminator (last ''# c\<newline>'')
   \<and> letter_or_underscore CHR ''d''
   \<and> list_all (\<lambda>x. letter_or_underscore x \<or> digit x \<or> x = CHR ''.'' \<or> x = CHR ''-'') ''b.url''
   \<and> list_all is_space '' '' \<and> \<not> is_space CHR ''x''
   \<and> \<not> hasSection ''# c\<newline>db.url = x''
   \<and> detectFormat sample_libs ''# c\<newline>db.url = x'' = Some Properties"
proof -
  have 1: "\<not> startsWith (trim ''# c\<newline>db.url = x'') ''{''"
    and 2: "\<not> startsWith (trim ''# c\<newline>db.url = x'') ''[''"
    and 3: "\<not> startsWith (trim ''# c\<newline>db.url = x'') ''<''"
    and 4: "\<not> str_includes (toLowerCase ''# c\<newline>db.url = x'') ''<?xml''"
    by (simp_all add: string_eval)
  have 5: "''# c\<newline>db.url = x'' = ''# c\<newline>'' @ CHR ''d'' # ''b.url'' @ '' '' @ CHR ''='' # '' '' @ CHR ''x'' # []"
    by simp
  have 6: "''# c\<newline>'' = [] \<or> is_line_terminator (last ''# c\<newline>'')"
    and lt: "is_line_terminator (last ''# c\<newline>'')"
    and 7: "letter_or_underscore CHR ''d''"
    and 8: "list_all (\<lambda>x. letter_or_underscore x \<or> digit x \<or> x = CHR ''.'' \<or> x = CHR ''-'') ''b.url''"
    and 9: "list_all is_space '' ''" and 10: "\<not> is_space CHR ''x''"
    by (simp_all add: string_eval)
  have 11: "\<not> hasSection ''# c\<newline>db.url = x''"
    by (simp add: regex_eval string_eval)
  from detectFormat_properties [OF 1 2 3 4 5 6 7 8 9 9 10 11, of sample_libs]
  show ?thesis using 1 2 3 4 5 lt 7 8 9 10 11 by blast
qed

text \<open>
  Claim C7 as stated fails. In the document \<^verbatim>\<open>a.b=1\<close>, \<^verbatim>\<open>[s]\<close> (two lines, valid TOML) a
  line is a section header and a line begins with an identifier-like token followed by
  \<^verbatim>\<open>=\<close>, and detection gets past the JSON and XML steps; yet no TOML parse is attempted
  and the result is \<^verbatim>\<open>null\<close>. The TOML/INI step tests a pattern of its own, whose token has
  no dot, and the properties step is closed by the section header.
\<close>

theorem detectFormat_dotted_key_counterexample:
  "\<not> startsWith (trim ''a.b=1\<newline>[s]'') ''{'' \<and> \<not> startsWith (trim ''a.b=1\<newline>[s]'') ''[''
   \<and> \<not> startsWith (trim ''a.b=1\<newline>[s]'') ''<''
   \<and> \<not> str_includes (toLowerCase ''a.b=1\<newline>[s]'') ''<?xml''
   \<and> hasSection ''a.b=1\<newline>[s]'' \<and> spec_hasKeyAssignment ''a.b=1\<newline>[s]''
   \<and> succeeds (toml_parse sample_libs ''a.b=1\<newline>[s]'')
   \<and> detectFormat sample_libs ''a.b=1\<newline>[s]'' = None"
  by (simp add: detectFormat_def regex_eval string_eval sample_eval)

text \<open>
  Claim C7, amended. When detection gets past the JSON and XML steps and the content has
  a section header (\<^verbatim>\<open>hasSection\<close>) and a line that begins with a letter or underscore
  followed by letters, digits, underscores and hyphens, without a dot, then optional
  white space and \<^verbatim>\<open>=\<close> (\<^verbatim>\<open>hasSectionAssignment\<close>, in words in
  \<open>hasSectionAssignment_iff\<close>), the result is decided by the TOML parser alone: \<open>toml\<close> if
  it accepts the content and \<open>ini\<close> if it throws, never anything else. For
  \<^verbatim>\<open>'[s]\nk = "v"'\<close>, which \<^verbatim>\<open>JSON.parse\<close> rejects and the TOML parser accepts, the
  result is \<open>toml\<close>.
\<close>

theorem detectFormat_toml_or_ini:
  "(\<not> ((startsWith (trim content) ''{'' \<or> startsWith (trim content) ''['')
         \<and> succeeds (JSON_parse L (trim content)))
     \<and> \<not> (startsWith (trim content) ''<'' \<or> str_includes (toLowerCase content) ''<?xml'')
     \<and> hasSection content \<and> hasSectionAssignment content
     \<longrightarrow> detectFormat L content = (if succeeds (toml_parse L content) then Some Toml else Some Ini))
   \<and> (\<not> succeeds (JSON_parse L ''[s]\<newline>k = \"v\"'') \<and> succeeds (toml_parse L ''[s]\<newline>k = \"v\"'')
     \<longrightarrow> detectFormat L ''[s]\<newline>k = \"v\"'' = Some Toml)"
proof -
  have general: "detectFormat L c = (if succeeds (toml_parse L c) then Some Toml else Some Ini)"
    if "\<not> ((startsWith (trim c) ''{'' \<or> startsWith (trim c) ''['') \<and> succeeds (JSON_parse L (trim c)))"
      and "\<not> (startsWith (trim c) ''<'' \<or> str_includes (toLowerCase c) ''<?xml'')"
      and "hasSection c" and "hasSectionAssignment c" for c
    using that unfolding detectFormat_def Let_def by auto
  have t: "trim ''[s]\<newline>k = \"v\"'' = ''[s]\<newline>k = \"v\"''"
    by (simp add: string_eval)
  have x: "\<not> (startsWith (trim ''[s]\<newline>k = \"v\"'') ''<''
            \<or> str_includes (toLowerCase ''[s]\<newline>k = \"v\"'') ''<?xml'')"
    by (simp add: string_eval)
  have s: "hasSection ''[s]\<newline>k = \"v\"''"
    by (simp add: regex_eval string_eval)
  have a: "hasSectionAssignment ''[s]\<newline>k = \"v\"''"
    by (simp add: regex_eval string_eval)
  have "detectFormat L ''[s]\<newline>k = \"v\"'' = Some Toml"
    if "\<not> succeeds (JSON_parse L ''[s]\<newline>k = \"v\"'')" and "succeeds (toml_parse L ''[s]\<newline>k = \"v\"'')"
    using general [OF _ x s a] that t by simp
  with general show ?thesis by blast
qed

text \<open>The hypotheses of C7 at the document of the claim.\<close>

theorem detectFormat_toml_or_ini_witness:
  "\<not> succeeds (JSON_parse sample_libs ''[s]\<newline>k = \"v\"'')
   \<and> succeeds (toml_parse sample_libs ''[s]\<newline>k = \"v\"'')
   \<and> \<not> (startsWith (trim ''[s]\<newline>k = \"v\"'') ''<''
          \<or> str_includes (toLowerCase ''[s]\<newline>k = \"v\"'') ''<?xml'')
   \<and> hasSection ''[s]\<newline>k = \"v\"''
   \<and> hasSectionAssignment ''[s]\<newline>k = \"v\"''
   \<and> detectFormat sample_libs ''[s]\<newline>k = \"v\"'' = Some Toml"
proof -
  have j: "\<not> succeeds (JSON_parse sample_libs ''[s]\<newline>k = \"v\"'')"
    by (simp add: sample_eval)
  have m: "succeeds (toml_parse sample_libs ''[s]\<newline>k = \"v\"'')"
    by (simp add: sample_eval)
  have x: "\<not> (startsWith (trim ''[s]\<newline>k = \"v\"'') ''<''
            \<or> str_includes (toLowerCase ''[s]\<newline>k = \"v\"'') ''<?xml'')"
    by (simp add: string_eval)
  have s: "hasSection ''[s]\<newline>k = \"v\"''"
    by (simp add: regex_eval string_eval)
  have a: "hasSectionAssignment ''[s]\<newline>k = \"v\"''"
    by (simp add: regex_eval string_eval)
  from j m x s a detectFormat_toml_or_ini [of "''[s]\<newline>k = \"v\"''" sample_libs]
  show ?thesis by blast
qed

text \<open>
  Claim C4, amended. \<^verbatim>\<open>parseConfig\<close> throws the error with the message
  \<^verbatim>\<open>Unable to detect format for <filepath>\<close> exactly when \<^verbatim>\<open>detectFormat\<close> returns
  \<^verbatim>\<open>null\<close> and \<^verbatim>\<open>getFormatFromExtension\<close> returns \<^verbatim>\<open>null\<close>. When a format is chosen
  and its parser throws, \<^verbatim>\<open>parseConfig\<close> throws that same exception: it wraps nothing
  and adds no format.
\<close>

theorem parseConfig_errors:
  "(parseConfig N L content filepath = Inl (Error (''Unable to detect format for '' @ filepath))
      \<longleftrightarrow> detectFormat L content = None \<and> getFormatFromExtension filepath = None)
   \<and> (chosen_format L content filepath = Some (Format f) \<and> parse_as N L f content = Inl e
      \<longrightarrow> parseConfig N L content filepath = Inl (Thrown e))"
proof -
  have "parseConfig N L content filepath = Inl (Error (''Unable to detect format for '' @ filepath))
      \<longleftrightarrow> chosen_format L content filepath = None"
    unfolding parseConfig_def
    by (auto split: option.splits format_value.splits sum.splits)
  moreover have "chosen_format L content filepath = None
      \<longleftrightarrow> detectFormat L content = None \<and> getFormatFromExtension filepath = None"
    unfolding chosen_format_def by (auto split: option.splits)
  moreover have "parseConfig N L content filepath = Inl (Thrown e)"
    if "chosen_format L content filepath = Some (Format f)" and "parse_as N L f content = Inl e"
    using that unfolding parseConfig_def by simp
  ultimately show ?thesis by auto
qed

text \<open>The hypotheses of C4 at the error scenario of the specification, and at a file
  \<^verbatim>\<open>a.json\<close> holding \<^verbatim>\<open>{\<close>.\<close>

theorem parseConfig_errors_witness:
  "detectFormat sample_libs ''not json and not anything else @#$'' = None
   \<and> getFormatFromExtension ''x.unknownext'' = None
   \<and> parseConfig small_integers sample_libs ''not json and not anything else @#$'' ''x.unknownext''
       = Inl (Error ''Unable to detect format for x.unknownext'')
   \<and> chosen_format sample_libs ''{'' ''a.json'' = Some (Format Json)
   \<and> parse_as small_integers sample_libs Json ''{'' = Inl ()
   \<and> parseConfig small_integers sample_libs ''{'' ''a.json'' = Inl (Thrown ())"
proof -
  have d: "detectFormat sample_libs ''not json and not anything else @#$'' = None"
    by (simp add: detectFormat_def regex_eval string_eval)
  have g: "getFormatFromExtension ''x.unknownext'' = None"
    by (simp add: getFormatFromExtension_def string_eval pop_def extMap_get_def extMap_def)
  have d2: "detectFormat sample_libs ''{'' = None"
    by (simp add: detectFormat_def regex_eval string_eval sample_eval)
  have g2: "getFormatFromExtension ''a.json'' = Some (Format Json)"
    by (simp add: getFormatFromExtension_def string_eval pop_def extMap_get_def extMap_def)
  have c: "chosen_format sample_libs ''{'' ''a.json'' = Some (Format Json)"
    by (simp add: chosen_format_def d2 g2)
  have p: "parse_as small_integers sample_libs Json ''{'' = Inl ()"
    by (simp add: sample_eval)
  from d g c p
    parseConfig_errors [of small_integers sample_libs "''not json and not anything else @#$''"
      "''x.unknownext''"]
    parseConfig_errors [of small_integers sample_libs "''{''" "''a.json''" Json "()"]
  show ?thesis by simp
qed

text \<open>
  Claim C4 as stated fails: the failure carries no format. With library parsers that throw
  the same exception, a rejected JSON file and a rejected TOML file make \<^verbatim>\<open>parseConfig\<close>
  fail with the same value, which is the exception of the library and nothing more.
\<close>

theorem parseConfig_untagged_counterexample:
  "chosen_format sample_libs ''{'' ''a.json'' = Some (Format Json)
   \<and> parse_as small_integers sample_libs Json ''{'' = Inl ()
   \<and> chosen_format sample_libs ''='' ''a.toml'' = Some (Format Toml)
   \<and> parse_as small_integers sample_libs Toml ''='' = Inl ()
   \<and> parseConfig small_integers sample_libs ''{'' ''a.json'' = Inl (Thrown ())
   \<and> parseConfig small_integers sample_libs ''='' ''a.toml'' = Inl (Thrown ())"
proof -
  have d1: "detectFormat sample_libs ''{'' = None"
    by (simp add: detectFormat_def regex_eval string_eval sample_eval)
  have g1: "getFormatFromExtension ''a.json'' = Some (Format Json)"
    by (simp add: getFormatFromExtension_def string_eval pop_def extMap_get_def extMap_def)
  have d2: "detectFormat sample_libs ''='' = None"
    by (simp add: detectFormat_def regex_eval string_eval sample_eval)
  have g2: "getFormatFromExtension ''a.toml'' = Some (Format Toml)"
    by (simp add: getFormatFromExtension_def string_eval pop_def extMap_get_def extMap_def)
  have p1: "parse_as small_integers sample_libs Json ''{'' = Inl ()" and p2: "parse_as small_integers sample_libs Toml ''='' = Inl ()"
    by (simp_all add: sample_eval)
  show ?thesis
    using p1 p2 by (simp add: parseConfig_def chosen_format_def d1 d2 g1 g2)
qed

text \<open>The lookup of an extension finds inherited names: a file \<^verbatim>\<open>x.constructor\<close> whose
  content has no detectable format is not reported as undetected.\<close>

lemma parseConfig_inherited_extension:
  "parseConfig small_integers sample_libs ''@'' ''x.constructor''
     = Inl (Error ''Unsupported format: function Object() { [native code] }'')"
proof -
  have d: "detectFormat sample_libs ''@'' = None"
    by (simp add: detectFormat_def regex_eval string_eval)
  have g: "getFormatFromExtension ''x.constructor'' = Some Object_constructor"
    by (simp add: getFormatFromExtension_def string_eval pop_def extMap_get_def extMap_def)
  show ?thesis by (simp add: parseConfig_def chosen_format_def d g)
qed

section \<open>Properties of the properties parser\<close>

lemma split_on_not_Nil: "split_on c s \<noteq> []"
  by (induction s) (auto split: list.splits)

lemma hd_split_on: "hd (split_on c s) = takeWhile (\<lambda>x. x \<noteq> c) s"
  by (induction s) (auto split: list.splits simp: split_on_not_Nil)

lemma split_on_first: "split_on c s = takeWhile (\<lambda>x. x \<noteq> c) s # tl (split_on c s)"
  using split_on_not_Nil [of c s] hd_split_on [of c s] by (cases "split_on c s") auto

lemma join_Cons: "ps \<noteq> [] \<Longrightarrow> join sep (p # ps) = p @ sep @ join sep ps"
  by (cases ps) simp_all

lemma join_split_on: "join [c] (split_on c s) = s"
proof (induction s)
  case Nil
  show ?case by simp
next
  case (Cons x xs)
  obtain p ps where sp: "split_on c xs = p # ps"
    using split_on_not_Nil [of c xs] by (cases "split_on c xs") auto
  show ?case
  proof (cases "x = c")
    case True
    then show ?thesis using Cons by (simp add: join_Cons split_on_not_Nil)
  next
    case False
    have "join [c] ((x # p) # ps) = x # join [c] (p # ps)"
      by (cases ps) simp_all
    with False Cons sp show ?thesis by simp
  qed
qed

lemma join_rest_split_on:
  "c \<in> set s \<Longrightarrow> join [c] (tl (split_on c s)) = tl (dropWhile (\<lambda>x. x \<noteq> c) s)"
proof (induction s)
  case Nil
  then show ?case by simp
next
  case (Cons x xs)
  show ?case
  proof (cases "x = c")
    case True
    then show ?thesis by (simp add: join_split_on)
  next
    case False
    obtain p ps where sp: "split_on c xs = p # ps"
      using split_on_not_Nil [of c xs] by (cases "split_on c xs") auto
    from False Cons sp show ?thesis by simp
  qed
qed

lemma str_includes_char: "str_includes s [c] \<longleftrightarrow> c \<in> set s"
  by (induction s) (auto simp: startsWith_def)

text \<open>The loop body agrees with the reference on every line: it assigns the entry of
  the line, if there is one.\<close>

lemma property_line_entry:
  "property_line props line =
     (case property_entry line of
        None \<Rightarrow> props
      | Some (k, v) \<Rightarrow> prop_set k (SStr v) props)"
proof -
  have c: "startsWith t ''#'' \<longleftrightarrow> t \<noteq> [] \<and> hd t = CHR ''#''" for t
    by (cases t) (auto simp: startsWith_def)
  show ?thesis
  proof (cases "trim line \<noteq> [] \<and> hd (trim line) \<noteq> CHR ''#'' \<and> CHR ''='' \<in> set (trim line)")
    case True
    then have "join ''='' (tl (split_on CHR ''='' (trim line)))
        = tl (dropWhile (\<lambda>x. x \<noteq> CHR ''='') (trim line))"
      using join_rest_split_on [of "CHR ''=''" "trim line"] by simp
    moreover have "split_on CHR ''='' (trim line)
        = takeWhile (\<lambda>x. x \<noteq> CHR ''='') (trim line) # tl (split_on CHR ''='' (trim line))"
      by (rule split_on_first)
    ultimately have "(case split_on CHR ''='' (trim line) of
              [] \<Rightarrow> props
            | k # valueParts \<Rightarrow> prop_set (trim k) (SStr (trim (join ''='' valueParts))) props)
        = prop_set (trim (takeWhile (\<lambda>x. x \<noteq> CHR ''='') (trim line)))
             (SStr (trim (tl (dropWhile (\<lambda>x. x \<noteq> CHR ''='') (trim line))))) props"
      by (metis list.simps(5))
    then show ?thesis
      using True unfolding property_line_def property_entry_def Let_def c str_includes_char by simp
  next
    case False
    then show ?thesis
      unfolding property_line_def property_entry_def Let_def c str_includes_char by auto
  qed
qed


lemma prop_set_string:
  "inherits obj \<Longrightarrow>
   prop_set k (SStr v) obj =
     (if k = ''__proto__'' then obj else obj\<lparr>own := AList.update k (SStr v) (own obj)\<rparr>)"
  by (simp add: prop_set_def)

lemma inherits_property_line: "inherits obj \<Longrightarrow> inherits (property_line obj line)"
  by (auto simp: property_line_entry prop_set_string split: option.splits)

lemma own_property_line:
  "inherits obj \<Longrightarrow> k \<noteq> ''__proto__'' \<Longrightarrow>
   map_of (own (property_line obj line)) k =
     (case property_entry line of
        None \<Rightarrow> map_of (own obj) k
      | Some (k', v) \<Rightarrow> if k' = k then Some (SStr v) else map_of (own obj) k)"
  by (auto simp: property_line_entry prop_set_string update_conv' split: option.splits)

lemma own_property_lines:
  "inherits obj \<Longrightarrow> k \<noteq> ''__proto__'' \<Longrightarrow>
   map_of (own (foldl property_line obj ls)) k =
     (case map_of (rev (List.map_filter property_entry ls)) k of
        None \<Rightarrow> map_of (own obj) k
      | Some v \<Rightarrow> Some (SStr v))"
proof (induction ls arbitrary: obj)
  case Nil
  then show ?case by (simp add: List.map_filter_simps)
next
  case (Cons l ls)
  have "map_of (own (foldl property_line (property_line obj l) ls)) k =
     (case map_of (rev (List.map_filter property_entry ls)) k of
        None \<Rightarrow> map_of (own (property_line obj l)) k
      | Some v \<Rightarrow> Some (SStr v))"
    using Cons.IH [of "property_line obj l"] Cons.prems by (simp add: inherits_property_line)
  then show ?case
    using Cons.prems
    by (auto simp: own_property_line List.map_filter_simps map_add_def split: option.splits)
qed

text \<open>Away from the key \<^verbatim>\<open>__proto__\<close> the parser is the reference: a key is mapped to the
  value of the last line that assigns it, as a string.\<close>

lemma parseProperties_props_reference:
  "k \<noteq> ''__proto__'' \<Longrightarrow>
   map_of (own (parseProperties_props content)) k =
     map_option SStr (map_of (rev (List.map_filter property_entry (split_on CHR 0x0A content))) k)"
  unfolding parseProperties_props_def
  by (simp add: own_property_lines empty_object_def split: option.splits)

lemma proto_not_own_property_lines:
  "inherits obj \<Longrightarrow> ''__proto__'' \<notin> fst ` set (own obj) \<Longrightarrow>
   ''__proto__'' \<notin> fst ` set (own (foldl property_line obj ls))"
proof (induction ls arbitrary: obj)
  case Nil
  then show ?case by simp
next
  case (Cons l ls)
  have "''__proto__'' \<notin> fst ` set (own (property_line obj l))"
    using Cons.prems
    by (auto simp: property_line_entry prop_set_string dom_update split: option.splits)
  then show ?case
    using Cons.IH [of "property_line obj l"] Cons.prems by (simp add: inherits_property_line)
qed

lemma snd_update_subset: "snd ` set (AList.update k v al) \<subseteq> insert v (snd ` set al)"
  by (induction al) auto

lemma strings_property_lines:
  "inherits obj \<Longrightarrow> snd ` set (own obj) \<subseteq> range SStr \<Longrightarrow>
   snd ` set (own (foldl property_line obj ls)) \<subseteq> range SStr"
proof (induction ls arbitrary: obj)
  case Nil
  then show ?case by simp
next
  case (Cons l ls)
  have "snd ` set (own (property_line obj l)) \<subseteq> range SStr"
  proof (cases "property_entry l")
    case None
    with Cons.prems show ?thesis by (simp add: property_line_entry)
  next
    case (Some e)
    obtain k v where e: "e = (k, v)" by (cases e)
    show ?thesis
    proof (cases "k = ''__proto__''")
      case True
      with Some e Cons.prems show ?thesis
        by (simp add: property_line_entry prop_set_string)
    next
      case False
      have "snd ` set (AList.update k (SStr v) (own obj)) \<subseteq> insert (SStr v) (snd ` set (own obj))"
        by (rule snd_update_subset)
      with Cons.prems(2) have "snd ` set (AList.update k (SStr v) (own obj)) \<subseteq> range SStr"
        by blast
      with False Some e Cons.prems(1) show ?thesis
        by (simp add: property_line_entry prop_set_string)
    qed
  qed
  then show ?case
    using Cons.IH [of "property_line obj l"] Cons.prems by (simp add: inherits_property_line)
qed

text \<open>Every value of the result is a string, and no key occurs twice.\<close>

lemma parseProperties_values_strings:
  "snd ` set (own (parseProperties_props content)) \<subseteq> range SStr"
  unfolding parseProperties_props_def
  by (rule strings_property_lines) (simp_all add: empty_object_def)

lemma distinct_property_lines:
  "inherits obj \<Longrightarrow> distinct (map fst (own obj)) \<Longrightarrow>
   distinct (map fst (own (foldl property_line obj ls)))"
proof (induction ls arbitrary: obj)
  case Nil
  then show ?case by simp
next
  case (Cons l ls)
  have "distinct (map fst (own (property_line obj l)))"
    using Cons.prems
    by (auto simp: property_line_entry prop_set_string distinct_update split: option.splits)
  then show ?case
    using Cons.IH [of "property_line obj l"] Cons.prems by (simp add: inherits_property_line)
qed

lemma parseProperties_keys_distinct:
  "distinct (map fst (own (parseProperties_props content)))"
  unfolding parseProperties_props_def
  by (rule distinct_property_lines) (simp_all add: empty_object_def)

text \<open>
  Claim C8 fails on the key \<^verbatim>\<open>__proto__\<close>. The line \<^verbatim>\<open>__proto__=x\<close> is not blank, is no
  comment and contains \<^verbatim>\<open>=\<close>, so by the claim it contributes the key \<^verbatim>\<open>__proto__\<close> with
  the value \<^verbatim>\<open>x\<close>; the parser returns the empty mapping for it, and no content
  ever yields this key, while the line \<^verbatim>\<open>a=x\<close> yields its entry. The file
  \<^verbatim>\<open>app.properties\<close> holding that line is detected as \<open>properties\<close> and parsed to the
  empty mapping.
\<close>

theorem parseProperties_proto_line_lost:
  "property_entry ''__proto__=x'' = Some (''__proto__'', ''x'')
   \<and> parseProperties ''__proto__=x'' = Mapping []
   \<and> ''__proto__'' \<notin> fst ` set (own (parseProperties_props content))
   \<and> parseProperties ''a=x'' = Mapping [(''a'', Scalar (SStr ''x''))]
   \<and> parseConfig small_integers sample_libs ''__proto__=x'' ''app.properties'' = Inr (Mapping [], Properties)"
proof -
  have d: "detectFormat sample_libs ''__proto__=x'' = Some Properties"
    by (simp add: detectFormat_def regex_eval string_eval)
  have p: "parseProperties ''__proto__=x'' = Mapping []"
    by (simp add: parseProperties_def parseProperties_props_def property_line_def trim_def
        is_space_def startsWith_def prop_set_def empty_object_def object_eval)
  have "parseConfig small_integers sample_libs ''__proto__=x'' ''app.properties'' = Inr (Mapping [], Properties)"
    by (simp add: parseConfig_def chosen_format_def d p)
  moreover have "''__proto__'' \<notin> fst ` set (own (parseProperties_props content))"
    unfolding parseProperties_props_def
    by (rule proto_not_own_property_lines) (simp_all add: empty_object_def)
  moreover have "property_entry ''__proto__=x'' = Some (''__proto__'', ''x'')"
    by (simp add: property_entry_def trim_def is_space_def)
  moreover have "parseProperties ''__proto__=x'' = Mapping []"
    by (simp add: parseProperties_def parseProperties_props_def property_line_def trim_def
        is_space_def startsWith_def prop_set_def empty_object_def object_eval)
  moreover have "parseProperties ''a=x'' = Mapping [(''a'', Scalar (SStr ''x''))]"
    by (simp add: parseProperties_def parseProperties_props_def property_line_def trim_def
        is_space_def startsWith_def prop_set_def empty_object_def object_eval)
  ultimately show ?thesis by simp
qed

section \<open>Properties of the flattener\<close>

lemma Object_assign_Nil: "Object_assign items [] = items"
  by (simp add: Object_assign_def own_entries_Nil)

lemma flattenConfig_empty: "flattenConfig (Mapping []) p sep = []" "flattenConfig (Sequence []) p sep = []"
  by (simp_all add: empty_object_def)

lemma flatten_entries_empty_value:
  "v = Mapping [] \<or> v = Sequence [] \<Longrightarrow>
   flatten_entries (es1 @ (k, v) # es2) p sep items = flatten_entries (es1 @ es2) p sep items"
proof (induction es1 arbitrary: items)
  case Nil
  then show ?case by (auto simp: Object_assign_Nil empty_object_def)
next
  case (Cons e es1)
  obtain k' x where e: "e = (k', x)" by (cases e)
  show ?case unfolding e using Cons by simp
qed

text \<open>The three scenarios of the specification.\<close>

lemma flattenConfig_scenarios:
  "flattenConfig_default (Mapping [(''a'', Mapping [(''b'', Scalar (SNum 1))])]) = [(''a.b'', SNum 1)]"
  "flattenConfig_default (Mapping [(''items'', Sequence [Scalar (SStr ''x''), Scalar (SStr ''y'')])])
     = [(''items[0]'', SStr ''x''), (''items[1]'', SStr ''y'')]"
  "flattenConfig_default (Mapping [(''a'', Scalar SNull)]) = [(''a'', SNull)]"
  by (simp_all add: flattenConfig_default_def Object_assign_def prop_set_def empty_object_def
      digits.simps object_eval)

text \<open>A scalar under a prefix other than \<^verbatim>\<open>__proto__\<close> is stored under it; under the empty
  prefix nothing is stored.\<close>

lemma flattenConfig_scalar:
  "flattenConfig (Scalar v) [] sep = []"
  "prefix \<noteq> [] \<Longrightarrow> prefix \<noteq> ''__proto__'' \<Longrightarrow> flattenConfig (Scalar v) prefix sep = [(prefix, v)]"
  by (simp_all add: prop_set_def empty_object_def)

text \<open>
  Claim C10. A mapping entry whose value is the empty mapping or the empty sequence leaves
  no trace: the flattened result is that of the mapping without the entry, at every
  prefix, so \<^verbatim>\<open>flattenConfig({a:{}})\<close> and \<^verbatim>\<open>flattenConfig({a:[]})\<close> are empty, and a
  comparison cannot tell whether the entry is there.
\<close>

theorem flattenConfig_empty_value_invisible:
  "flattenConfig (Mapping (es1 @ (k, Mapping []) # es2)) p sep = flattenConfig (Mapping (es1 @ es2)) p sep
   \<and> flattenConfig (Mapping (es1 @ (k, Sequence []) # es2)) p sep = flattenConfig (Mapping (es1 @ es2)) p sep
   \<and> flattenConfig_default (Mapping [(''a'', Mapping [])]) = []
   \<and> flattenConfig_default (Mapping [(''a'', Sequence [])]) = []
   \<and> compareFlatConfigs N (flattenConfig (Mapping (es1 @ (k, Mapping []) # es2)) p sep) t
       = compareFlatConfigs N (flattenConfig (Mapping (es1 @ es2)) p sep) t
   \<and> compareFlatConfigs N (flattenConfig (Mapping (es1 @ (k, Sequence []) # es2)) p sep) t
       = compareFlatConfigs N (flattenConfig (Mapping (es1 @ es2)) p sep) t
   \<and> compareFlatConfigs N s (flattenConfig (Mapping (es1 @ (k, Mapping []) # es2)) p sep)
       = compareFlatConfigs N s (flattenConfig (Mapping (es1 @ es2)) p sep)
   \<and> compareFlatConfigs N s (flattenConfig (Mapping (es1 @ (k, Sequence []) # es2)) p sep)
       = compareFlatConfigs N s (flattenConfig (Mapping (es1 @ es2)) p sep)"
proof -
  have m: "flattenConfig (Mapping (es1 @ (k, Mapping []) # es2)) p sep
      = flattenConfig (Mapping (es1 @ es2)) p sep"
    by (simp add: flatten_entries_empty_value)
  have q: "flattenConfig (Mapping (es1 @ (k, Sequence []) # es2)) p sep
      = flattenConfig (Mapping (es1 @ es2)) p sep"
    by (simp add: flatten_entries_empty_value)
  have e1: "flattenConfig_default (Mapping [(''a'', Mapping [])]) = []"
    by (simp add: flattenConfig_default_def Object_assign_def empty_object_def object_eval)
  have e2: "flattenConfig_default (Mapping [(''a'', Sequence [])]) = []"
    by (simp add: flattenConfig_default_def Object_assign_def empty_object_def object_eval)
  show ?thesis unfolding m q using e1 e2 by simp
qed

text \<open>
  Claim C6 fails on the key \<^verbatim>\<open>__proto__\<close>. \<^verbatim>\<open>flattenConfig(null, "__proto__")\<close> stores
  nothing, where the rule for a null value under a non-empty prefix gives
  \<^verbatim>\<open>{"__proto__": null}\<close>; and flattening the document \<^verbatim>\<open>{"__proto__": null}\<close> or
  \<^verbatim>\<open>{"__proto__": 1}\<close> gives the empty object, where the same document with the key
  \<^verbatim>\<open>a\<close> gives one entry.
\<close>

theorem flattenConfig_proto_key_lost:
  "flattenConfig (Scalar SNull) ''__proto__'' ''.'' = []
   \<and> flattenConfig_default (Mapping [(''__proto__'', Scalar SNull)]) = []
   \<and> flattenConfig_default (Mapping [(''__proto__'', Scalar (SNum 1))]) = []
   \<and> flattenConfig_default (Mapping [(''a'', Scalar SNull)]) = [(''a'', SNull)]
   \<and> flattenConfig_default (Mapping [(''a'', Scalar (SNum 1))]) = [(''a'', SNum 1)]"
  by (simp add: flattenConfig_default_def prop_set_def empty_object_def)

end
